theory Spec2Isabelle
  imports Complex_Main
begin

section \<open>The swipe screen of PokeSwipeRN\<close>

text \<open>
  The development embeds the gameplay screen (the component \<^verbatim>\<open>SwipeScreen\<close>): its hook
  state, the retry loop of \<^verbatim>\<open>fetchPokemon\<close>, the advance \<^verbatim>\<open>moveToNext\<close>, the two commit
  actions and the handlers of the pan responder.

  Numbers of the source are JavaScript numbers. Identifiers are modelled as \<open>int\<close>,
  screen coordinates as \<open>real\<close> (the products with \<open>0.25\<close>, \<open>0.5\<close> and \<open>1.5\<close> are taken
  over the reals; NaN and infinities are outside the model).
\<close>

subsection \<open>Data\<close>

text \<open>
  \<^verbatim>\<open>Pokemon\<close> as the screen reads it: \<^verbatim>\<open>id\<close>, \<^verbatim>\<open>name\<close> and \<^verbatim>\<open>types\<close>, whose entries are
  read as \<^verbatim>\<open>t.type.name\<close>. \<^verbatim>\<open>LikedPokemon\<close> is the object literal built in \<^verbatim>\<open>swipeRight\<close>.
  The field names carry a prefix, since \<open>id\<close> is a constant of HOL and both records
  have the same field names in the source.
\<close>

record PokemonTypeSlot =
  type_name :: string

record Pokemon =
  pokemon_id :: int
  pokemon_name :: string
  pokemon_types :: "PokemonTypeSlot list"

record LikedPokemon =
  liked_id :: int
  liked_name :: string
  liked_imageUrl :: string
  liked_types :: "string list"

text \<open>
  The state of the screen: the five \<^verbatim>\<open>useState\<close> cells, the animated value \<^verbatim>\<open>position\<close>
  (one object for the life of the component, held by \<^verbatim>\<open>useRef\<close>) and the two
  collections of the context store that the screen reads and changes.
\<close>

record screen =
  currentPokemon :: "Pokemon option"
  nextPokemon :: "Pokemon option"
  isInitialLoading :: bool
  error :: "string option"
  isAnimating :: bool
  position :: "real \<times> real"
  likedPokemon :: "LikedPokemon list"
  seenPokemonIds :: "int list"

text \<open>The gesture state handed to the pan handlers: the pointer delta.\<close>

record gesture =
  dx :: real
  dy :: real

text \<open>
  \<^verbatim>\<open>fetchRandomPokemon\<close> is the network: it either returns a \<^verbatim>\<open>Pokemon\<close> or throws. The
  outcome of its \<open>k\<close>-th call (counted from 0 over the life of the program) is given by a
  function; the number of calls made so far is threaded beside the screen state.
\<close>

datatype fetch_error = NetworkError | DecodeError

type_synonym network = "nat \<Rightarrow> fetch_error + Pokemon"

subsection \<open>Constants\<close>

definition SWIPE_THRESHOLD :: "real \<Rightarrow> real" where
  "SWIPE_THRESHOLD width = width * 0.25"

definition maxAttempts :: nat where
  "maxAttempts = 10"

subsection \<open>fetchPokemon\<close>

text \<open>
  The \<^verbatim>\<open>do ... while\<close> loop inside the \<^verbatim>\<open>try\<close> block. \<open>attempts\<close> is the counter before the
  body runs, \<open>k\<close> the index of the next network call. A throwing call leaves the loop
  through the \<^verbatim>\<open>catch\<close> clause, which returns \<^verbatim>\<open>null\<close>.
\<close>

function fetch_loop :: "network \<Rightarrow> int list \<Rightarrow> nat \<Rightarrow> nat \<Rightarrow> Pokemon option \<times> nat" where
  "fetch_loop net seen attempts k =
     (case net k of
        Inl e \<Rightarrow> (None, Suc k)
      | Inr pokemon \<Rightarrow>
          if pokemon_id pokemon \<in> set seen \<and> Suc attempts < maxAttempts
          then fetch_loop net seen (Suc attempts) (Suc k)
          else (Some pokemon, Suc k))"
  by pat_completeness auto
termination
  by (relation "measure (\<lambda>(net, seen, attempts, k). maxAttempts - attempts)") auto

declare fetch_loop.simps [simp del]

text \<open>
  A closure of the component reads the state variables of the render that created it.
  Every function below therefore takes that render \<open>r\<close> (the state as it was when the
  function was created) next to the live state it changes. \<^verbatim>\<open>fetchPokemon\<close> reads
  \<^verbatim>\<open>seenPokemonIds\<close> of its render.
\<close>

definition fetchPokemon :: "screen \<Rightarrow> network \<Rightarrow> nat \<Rightarrow> Pokemon option \<times> nat" where
  "fetchPokemon r net k = fetch_loop net (seenPokemonIds r) 0 k"

subsection \<open>The parts of the repository that the screen calls\<close>

text \<open>
  A whole number as a template literal prints it: in decimal, with a minus sign when
  negative.
\<close>

function show_nat :: "nat \<Rightarrow> string" where
  "show_nat n =
     (if n < 10 then [''0123456789'' ! n]
      else show_nat (n div 10) @ [''0123456789'' ! (n mod 10)])"
  by pat_completeness auto
termination
  by (relation "measure (\<lambda>n. n)") auto

declare show_nat.simps [simp del]

definition show_int :: "int \<Rightarrow> string" where
  "show_int i = (if i < 0 then CHR ''-'' # show_nat (nat (- i)) else show_nat (nat i))"

text \<open>
  Modelled from the spec: \<^verbatim>\<open>getOfficialArtworkUrl\<close> of the remote fetch helper
  (\<^verbatim>\<open>services/pokeApi\<close>, not among the sources): the image is the artwork base, the
  identifier and \<^verbatim>\<open>.png\<close>. The base is the one the README gives.
\<close>

definition getOfficialArtworkUrl :: "int \<Rightarrow> string" where
  "getOfficialArtworkUrl i =
     ''https://raw.githubusercontent.com/PokeAPI/sprites/master/sprites/pokemon/other/official-artwork/''
       @ show_int i @ ''.png''"

text \<open>
  Modelled from the spec: \<^verbatim>\<open>isLiked\<close> of the persistent collection store
  (\<^verbatim>\<open>context/PokemonContext\<close>, not among the sources): whether the identifier is in the
  liked collection. The function comes out of \<^verbatim>\<open>usePokemon()\<close> in a render, so it reads
  the collection of that render.
\<close>

definition isLiked :: "screen \<Rightarrow> int \<Rightarrow> bool" where
  "isLiked r i = (i \<in> set (map liked_id (likedPokemon r)))"

text \<open>
  Modelled from the spec: \<^verbatim>\<open>addLikedPokemon\<close> of the persistent collection store
  (\<^verbatim>\<open>context/PokemonContext\<close>, not among the sources): add-to-liked, idempotent by id,
  on an ordered sequence whose insertion order is the like order. The flush to the device
  storage is outside the model.
\<close>

definition addLikedPokemon :: "LikedPokemon \<Rightarrow> screen \<Rightarrow> screen" where
  "addLikedPokemon l s =
     (if liked_id l \<in> set (map liked_id (likedPokemon s)) then s
      else s\<lparr>likedPokemon := likedPokemon s @ [l]\<rparr>)"

text \<open>
  Modelled from the spec: \<^verbatim>\<open>addSeenPokemon\<close> of the persistent collection store
  (\<^verbatim>\<open>context/PokemonContext\<close>, not among the sources): mark-seen on the set of seen
  identifiers. The screen reads the set as an array (\<^verbatim>\<open>seenPokemonIds.includes\<close>), so it is
  a list without repetition here.
\<close>

definition addSeenPokemon :: "int \<Rightarrow> screen \<Rightarrow> screen" where
  "addSeenPokemon i s =
     (if i \<in> set (seenPokemonIds s) then s
      else s\<lparr>seenPokemonIds := seenPokemonIds s @ [i]\<rparr>)"

subsection \<open>Fetching and advancing\<close>

text \<open>
  An awaited or started fetch is modelled as resolving at the place where it is started:
  the screen functions run to their end before the next event. \<^verbatim>\<open>Image.prefetch\<close>,
  \<^verbatim>\<open>Vibration.vibrate\<close> and \<^verbatim>\<open>console.error\<close> leave the state alone and are left out.
\<close>

fun prefetchNext :: "screen \<Rightarrow> network \<Rightarrow> screen \<times> nat \<Rightarrow> screen \<times> nat" where
  "prefetchNext r net (s, k) =
     (case fetchPokemon r net k of
        (Some pokemon, k') \<Rightarrow> (s\<lparr>nextPokemon := Some pokemon\<rparr>, k')
      | (None, k') \<Rightarrow> (s, k'))"

text \<open>The message is \<^verbatim>\<open>Failed to fetch Pok\<close>, the letter e with acute accent (code E9), \<^verbatim>\<open>mon. Please try again.\<close>\<close>

definition fetch_failed_message :: string where
  "fetch_failed_message = ''Failed to fetch Pok'' @ [CHR 0xE9] @ ''mon. Please try again.''"

fun init :: "screen \<Rightarrow> network \<Rightarrow> screen \<times> nat \<Rightarrow> screen \<times> nat" where
  "init r net (s, k) =
     (case fetchPokemon r net k of
        (Some pokemon, k') \<Rightarrow>
          (case prefetchNext r net
                  (addSeenPokemon (pokemon_id pokemon)
                     (s\<lparr>isInitialLoading := True, currentPokemon := Some pokemon\<rparr>), k') of
             (s', k'') \<Rightarrow> (s'\<lparr>isInitialLoading := False\<rparr>, k''))
      | (None, k') \<Rightarrow>
          (s\<lparr>isInitialLoading := True, error := Some fetch_failed_message,
              isInitialLoading := False\<rparr>, k'))"

fun handleRetry :: "screen \<Rightarrow> network \<Rightarrow> screen \<times> nat \<Rightarrow> screen \<times> nat" where
  "handleRetry r net (s, k) =
     (case fetchPokemon r net k of
        (Some pokemon, k') \<Rightarrow>
          (case prefetchNext r net
                  (addSeenPokemon (pokemon_id pokemon)
                     (s\<lparr>isInitialLoading := True, error := None,
                         currentPokemon := Some pokemon\<rparr>), k') of
             (s', k'') \<Rightarrow> (s'\<lparr>isInitialLoading := False\<rparr>, k''))
      | (None, k') \<Rightarrow>
          (s\<lparr>isInitialLoading := True, error := Some fetch_failed_message,
              isInitialLoading := False\<rparr>, k'))"

fun moveToNext :: "screen \<Rightarrow> network \<Rightarrow> screen \<times> nat \<Rightarrow> screen \<times> nat" where
  "moveToNext r net (s, k) =
     (case nextPokemon r of
        Some next_one \<Rightarrow>
          prefetchNext r net
            ((addSeenPokemon (pokemon_id next_one) (s\<lparr>currentPokemon := Some next_one\<rparr>))
               \<lparr>nextPokemon := None\<rparr>, k)
      | None \<Rightarrow>
          (case fetchPokemon r net k of
             (Some pokemon, k') \<Rightarrow>
               prefetchNext r net
                 (addSeenPokemon (pokemon_id pokemon) (s\<lparr>currentPokemon := Some pokemon\<rparr>), k')
           | (None, k') \<Rightarrow> (s, k')))"

subsection \<open>The swipe actions\<close>

text \<open>The object literal that \<^verbatim>\<open>swipeRight\<close> hands to \<^verbatim>\<open>addLikedPokemon\<close>.\<close>

definition toLikedPokemon :: "Pokemon \<Rightarrow> LikedPokemon" where
  "toLikedPokemon p =
     \<lparr>liked_id = pokemon_id p, liked_name = pokemon_name p,
      liked_imageUrl = getOfficialArtworkUrl (pokemon_id p),
      liked_types = map type_name (pokemon_types p)\<rparr>"

text \<open>
  A swipe action has two parts: the body up to \<^verbatim>\<open>Animated.timing(...).start\<close>, which sets the
  flag and starts the fly-out, and the callback given to \<^verbatim>\<open>start\<close>, which runs when the
  fly-out ends. \<open>swipeRight_end\<close> and \<open>swipeLeft_end\<close> are the two callbacks. \<open>swipeRight\<close>
  and \<open>swipeLeft\<close> are the whole action when nothing touches the offset while the fly-out
  runs: the guard, the flag, and the callback at the end of the 400 ms.
\<close>

definition swipe_begin :: "screen \<Rightarrow> screen" where
  "swipe_begin s = s\<lparr>isAnimating := True\<rparr>"

fun swipeRight_end :: "screen \<Rightarrow> network \<Rightarrow> screen \<times> nat \<Rightarrow> screen \<times> nat" where
  "swipeRight_end r net (s, k) =
     moveToNext r net
       ((case currentPokemon r of
           Some p \<Rightarrow> if \<not> isLiked r (pokemon_id p) then addLikedPokemon (toLikedPokemon p) s else s
         | None \<Rightarrow> s)
          \<lparr>position := (0, 0), isAnimating := False\<rparr>, k)"

fun swipeRight :: "screen \<Rightarrow> network \<Rightarrow> screen \<times> nat \<Rightarrow> screen \<times> nat" where
  "swipeRight r net (s, k) =
     (if isAnimating r \<or> currentPokemon r = None then (s, k)
      else swipeRight_end r net (swipe_begin s, k))"

fun swipeLeft_end :: "screen \<Rightarrow> network \<Rightarrow> screen \<times> nat \<Rightarrow> screen \<times> nat" where
  "swipeLeft_end r net (s, k) =
     moveToNext r net (s\<lparr>position := (0, 0), isAnimating := False\<rparr>, k)"

fun swipeLeft :: "screen \<Rightarrow> network \<Rightarrow> screen \<times> nat \<Rightarrow> screen \<times> nat" where
  "swipeLeft r net (s, k) =
     (if isAnimating r \<or> currentPokemon r = None then (s, k)
      else swipeLeft_end r net (swipe_begin s, k))"

subsection \<open>The animated offset\<close>

text \<open>
  \<^verbatim>\<open>position\<close> is an \<^verbatim>\<open>Animated.ValueXY\<close> of react-native: two animated values, \<open>x\<close> and
  \<open>y\<close>. What the library does with it, as far as the screen uses it:
  \<^item> \<^verbatim>\<open>Animated.timing(position, ...).start(callback)\<close> runs one timing on \<open>x\<close> and one on \<open>y\<close>
    side by side; the callback runs once, when both have ended, whether they reached their
    end or were stopped. The callbacks of the screen do not look at the \<^verbatim>\<open>finished\<close> field
    they are given (lines 293 and 328).
  \<^item> Setting a value (\<^verbatim>\<open>setValue\<close>) or starting another animation on it stops the animation
    that runs on it.
  \<^item> \<^verbatim>\<open>position.setValue({x, y})\<close> sets \<open>x\<close> and then \<open>y\<close>.

  So a fly-out in flight is ended by the next \<^verbatim>\<open>setValue\<close> or \<^verbatim>\<open>spring\<close> on \<^verbatim>\<open>position\<close>, and
  its callback runs inside that call. The live state therefore holds, next to the screen
  state and the number of network calls, the fly-out in flight if there is one: which of
  the two callbacks it was started with, and the render of the swipe action that started
  it. While a fly-out runs, the offset is driven by the animation and the \<open>position\<close>
  cell of the model is not read.
\<close>

datatype flyOut = LikeFlyOut screen | NopeFlyOut screen

type_synonym live = "flyOut option \<times> screen \<times> nat"

definition screen_of :: "live \<Rightarrow> screen" where
  "screen_of l = fst (snd l)"

fun flyOut_callback :: "flyOut \<Rightarrow> network \<Rightarrow> screen \<times> nat \<Rightarrow> screen \<times> nat" where
  "flyOut_callback (LikeFlyOut r) net sk = swipeRight_end r net sk"
| "flyOut_callback (NopeFlyOut r) net sk = swipeLeft_end r net sk"

text \<open>The fly-out reaches its end after 400 ms: the callback runs.\<close>

fun flyOut_finished :: "network \<Rightarrow> live \<Rightarrow> live" where
  "flyOut_finished net (None, s, k) = (None, s, k)"
| "flyOut_finished net (Some f, s, k) = (None, flyOut_callback f net (s, k))"

text \<open>
  \<^verbatim>\<open>position.setValue({x, y})\<close>. With a fly-out in flight: \<open>x\<close> is set, which stops the
  timing on \<open>x\<close>; then setting \<open>y\<close> stops the timing on \<open>y\<close>, both have ended and the callback
  runs (it sets the offset to zero itself, among the rest); then \<open>y\<close> takes its new value.
\<close>

fun position_setValue :: "network \<Rightarrow> real \<times> real \<Rightarrow> live \<Rightarrow> live" where
  "position_setValue net (x, y) (None, s, k) = (None, s\<lparr>position := (x, y)\<rparr>, k)"
| "position_setValue net (x, y) (Some f, s, k) =
     (case flyOut_callback f net (s\<lparr>position := (x, snd (position s))\<rparr>, k) of
        (s', k') \<Rightarrow> (None, s'\<lparr>position := (fst (position s'), y)\<rparr>, k'))"

text \<open>
  \<^verbatim>\<open>Animated.timing(position, ...).start(callback)\<close>, the start of the fly-out whose callback
  is \<open>f\<close>. Starting it stops a fly-out that is still in flight, whose callback runs first.
\<close>

fun start_flyOut :: "flyOut \<Rightarrow> network \<Rightarrow> live \<Rightarrow> live" where
  "start_flyOut f net (None, s, k) = (Some f, s, k)"
| "start_flyOut f net (Some f', s, k) = (Some f, flyOut_callback f' net (s, k))"

text \<open>
  \<^verbatim>\<open>resetPosition\<close>: \<^verbatim>\<open>Animated.spring(position, {toValue: {x: 0, y: 0}, ...}).start()\<close>.
  Starting the spring stops a fly-out in flight, whose callback runs; the spring has no
  callback of its own, and the model holds the offset \<open>(0, 0)\<close> at which it comes to rest.
\<close>

fun resetPosition :: "network \<Rightarrow> live \<Rightarrow> live" where
  "resetPosition net (None, s, k) = (None, s\<lparr>position := (0, 0)\<rparr>, k)"
| "resetPosition net (Some f, s, k) =
     (case flyOut_callback f net (s, k) of (s', k') \<Rightarrow> (None, s'\<lparr>position := (0, 0)\<rparr>, k'))"

text \<open>
  A call of \<^verbatim>\<open>swipeRight\<close> or \<^verbatim>\<open>swipeLeft\<close> by the closure of the render \<open>r\<close>: the guard, the
  flag, and the start of the fly-out. The call returns while the fly-out runs.
\<close>

fun swipeRight_start :: "screen \<Rightarrow> network \<Rightarrow> live \<Rightarrow> live" where
  "swipeRight_start r net (fly, s, k) =
     (if isAnimating r \<or> currentPokemon r = None then (fly, s, k)
      else start_flyOut (LikeFlyOut r) net (fly, swipe_begin s, k))"

fun swipeLeft_start :: "screen \<Rightarrow> network \<Rightarrow> live \<Rightarrow> live" where
  "swipeLeft_start r net (fly, s, k) =
     (if isAnimating r \<or> currentPokemon r = None then (fly, s, k)
      else start_flyOut (NopeFlyOut r) net (fly, swipe_begin s, k))"

subsection \<open>The pan responder\<close>

text \<open>
  The four callbacks given to \<^verbatim>\<open>PanResponder.create\<close>, each with the render \<open>r\<close> whose
  bindings it closed over.
\<close>

definition onStartShouldSetPanResponder :: "screen \<Rightarrow> bool" where
  "onStartShouldSetPanResponder r = (\<not> isAnimating r)"

definition onMoveShouldSetPanResponder :: "screen \<Rightarrow> gesture \<Rightarrow> bool" where
  "onMoveShouldSetPanResponder r g = (\<not> isAnimating r \<and> \<bar>dx g\<bar> > 5)"

definition onPanResponderMove :: "network \<Rightarrow> gesture \<Rightarrow> live \<Rightarrow> live" where
  "onPanResponderMove net g l = position_setValue net (dx g, dy g * 0.5) l"

definition onPanResponderRelease ::
  "screen \<Rightarrow> real \<Rightarrow> network \<Rightarrow> gesture \<Rightarrow> live \<Rightarrow> live" where
  "onPanResponderRelease r width net g l =
     (if dx g > SWIPE_THRESHOLD width then swipeRight_start r net l
      else if dx g < - SWIPE_THRESHOLD width then swipeLeft_start r net l
      else resetPosition net l)"

subsection \<open>Which render a handler belongs to\<close>

text \<open>
  The state of the component when it is mounted, which is also what its first render
  reads: the initial values of the five state cells, the offset at zero, and the two
  collections as the store holds them at that moment.
\<close>

definition firstRender :: "LikedPokemon list \<Rightarrow> int list \<Rightarrow> screen" where
  "firstRender liked seen =
     \<lparr>currentPokemon = None, nextPokemon = None, isInitialLoading = True, error = None,
      isAnimating = False, position = (0, 0), likedPokemon = liked, seenPokemonIds = seen\<rparr>"

text \<open>
  The pan responder is built as \<^verbatim>\<open>useRef(PanResponder.create({...})).current\<close> (lines 142
  to 168 of the screen). \<^verbatim>\<open>PanResponder.create\<close> runs in every render, but \<^verbatim>\<open>useRef\<close> takes
  its argument only in the first one: it keeps the object of the first render and ignores
  the objects that later renders build, and the card spreads \<^verbatim>\<open>panResponder.panHandlers\<close>
  of that kept object. So the four callbacks that run on a touch are those of the first
  render: the \<^verbatim>\<open>isAnimating\<close>, \<^verbatim>\<open>swipeRight\<close>, \<^verbatim>\<open>swipeLeft\<close> and \<^verbatim>\<open>resetPosition\<close> they name
  are the bindings of the first call of the component function. In that call \<^verbatim>\<open>isAnimating\<close>
  is \<^verbatim>\<open>false\<close> (\<^verbatim>\<open>useState(false)\<close>, line 98) and \<^verbatim>\<open>currentPokemon\<close> is \<^verbatim>\<open>null\<close>
  (\<^verbatim>\<open>useState(null)\<close>, line 90), and \<^verbatim>\<open>swipeRight\<close> and \<^verbatim>\<open>swipeLeft\<close> are the arrow functions
  of that call, which read these two bindings in their guard (lines 282 and 317). Only
  \<^verbatim>\<open>position\<close>, a ref, and the module constant \<^verbatim>\<open>SWIPE_THRESHOLD\<close> are the same in every
  render. The arguments \<open>liked\<^sub>0\<close> and \<open>seen\<^sub>0\<close> are the collections at mount time; each
  handler also takes the live state in which the touch happens.
\<close>

definition panHandlers_start :: "LikedPokemon list \<Rightarrow> int list \<Rightarrow> screen \<Rightarrow> bool" where
  "panHandlers_start liked0 seen0 s = onStartShouldSetPanResponder (firstRender liked0 seen0)"

definition panHandlers_moveShouldSet ::
  "LikedPokemon list \<Rightarrow> int list \<Rightarrow> gesture \<Rightarrow> screen \<Rightarrow> bool" where
  "panHandlers_moveShouldSet liked0 seen0 g s =
     onMoveShouldSetPanResponder (firstRender liked0 seen0) g"

definition panHandlers_move :: "network \<Rightarrow> gesture \<Rightarrow> live \<Rightarrow> live" where
  "panHandlers_move net g l = onPanResponderMove net g l"

definition panHandlers_release ::
  "LikedPokemon list \<Rightarrow> int list \<Rightarrow> real \<Rightarrow> network \<Rightarrow> gesture \<Rightarrow> live \<Rightarrow> live" where
  "panHandlers_release liked0 seen0 width net g l =
     onPanResponderRelease (firstRender liked0 seen0) width net g l"

text \<open>
  The buttons of the card get \<^verbatim>\<open>handleLike\<close> and \<^verbatim>\<open>handleDislike\<close> anew in every render
  (\<^verbatim>\<open>onLike={handleLike}\<close>), so a press runs the action of the latest render, whose
  bindings are the live state at the press. The effect \<^verbatim>\<open>init\<close> has no dependencies and
  runs once, with the bindings of the first render.
\<close>

fun handleLike :: "network \<Rightarrow> live \<Rightarrow> live" where
  "handleLike net (fly, s, k) = swipeRight_start s net (fly, s, k)"

fun handleDislike :: "network \<Rightarrow> live \<Rightarrow> live" where
  "handleDislike net (fly, s, k) = swipeLeft_start s net (fly, s, k)"

definition mount :: "LikedPokemon list \<Rightarrow> int list \<Rightarrow> network \<Rightarrow> nat \<Rightarrow> screen \<times> nat" where
  "mount liked0 seen0 net k =
     init (firstRender liked0 seen0) net (firstRender liked0 seen0, k)"

text \<open>
  Sequences of actions. Each action names the render whose closure runs, so that a
  sequence covers the fresh closures of the buttons, the kept closures of the pan
  responder, and an advance with or without a prefetched item.
\<close>

datatype action = SwipeRight screen | SwipeLeft screen | MoveToNext screen

fun act :: "network \<Rightarrow> action \<Rightarrow> screen \<times> nat \<Rightarrow> screen \<times> nat" where
  "act net (SwipeRight r) sk = swipeRight r net sk"
| "act net (SwipeLeft r) sk = swipeLeft r net sk"
| "act net (MoveToNext r) sk = moveToNext r net sk"

fun run :: "network \<Rightarrow> action list \<Rightarrow> screen \<times> nat \<Rightarrow> screen \<times> nat" where
  "run net [] sk = sk"
| "run net (a # as) sk = run net as (act net a sk)"

text \<open>The equations of the screen functions are unfolded only where a proof asks for them.\<close>

declare prefetchNext.simps [simp del] init.simps [simp del] handleRetry.simps [simp del]
  moveToNext.simps [simp del] swipeRight_end.simps [simp del] swipeRight.simps [simp del]
  swipeLeft_end.simps [simp del] swipeLeft.simps [simp del]
  swipeRight_start.simps [simp del] swipeLeft_start.simps [simp del]
  handleLike.simps [simp del] handleDislike.simps [simp del]

subsection \<open>Concrete items and networks\<close>

definition pikachu :: Pokemon where
  "pikachu = \<lparr>pokemon_id = 25, pokemon_name = ''pikachu'',
              pokemon_types = [\<lparr>type_name = ''electric''\<rparr>]\<rparr>"

definition bulbasaur :: Pokemon where
  "bulbasaur = \<lparr>pokemon_id = 1, pokemon_name = ''bulbasaur'',
                pokemon_types = [\<lparr>type_name = ''grass''\<rparr>, \<lparr>type_name = ''poison''\<rparr>]\<rparr>"

text \<open>The entry of the liked collection that the screen builds for item 25.\<close>

definition pikachu_liked :: LikedPokemon where
  "pikachu_liked =
     \<lparr>liked_id = 25, liked_name = ''pikachu'',
      liked_imageUrl = ''https://raw.githubusercontent.com/PokeAPI/sprites/master/sprites/pokemon/other/official-artwork/25.png'',
      liked_types = [''electric'']\<rparr>"

definition net_always_pikachu :: network where
  "net_always_pikachu k = Inr pikachu"

definition net_pikachu_then_bulbasaur :: network where
  "net_pikachu_then_bulbasaur k = (if k = 0 then Inr pikachu else Inr bulbasaur)"

definition net_pikachu_twice_then_bulbasaur :: network where
  "net_pikachu_twice_then_bulbasaur k = (if k < 2 then Inr pikachu else Inr bulbasaur)"

definition net_fail_then_pikachu :: network where
  "net_fail_then_pikachu k = (if k = 0 then Inl NetworkError else Inr pikachu)"

definition net_always_fail :: network where
  "net_always_fail k = Inl NetworkError"

definition net_pikachu_twice_then_fail :: network where
  "net_pikachu_twice_then_fail k = (if k < 2 then Inr pikachu else Inl DecodeError)"

text \<open>
  A fresh start in which the first fetch returns the item 25 and later fetches return the
  item 1, and a drag of 200 to the right on a window 400 wide (threshold 100).
\<close>

definition fresh_start :: "screen \<times> nat" where
  "fresh_start = mount [] [] net_pikachu_then_bulbasaur 0"

definition drag_right :: gesture where
  "drag_right = \<lparr>dx = 200, dy = 0\<rparr>"

definition fresh_start_dragged :: live where
  "fresh_start_dragged = panHandlers_move net_pikachu_then_bulbasaur drag_right (None, fresh_start)"

text \<open>
  The same fresh start after a press of the Like button, while the fly-out runs; and a
  touch that is released where it started.
\<close>

definition like_in_flight :: live where
  "like_in_flight = handleLike net_pikachu_then_bulbasaur (None, fresh_start)"

definition tap :: gesture where
  "tap = \<lparr>dx = 0, dy = 0\<rparr>"

text \<open>The item 25 on show with nothing prefetched.\<close>

definition shown_without_next :: screen where
  "shown_without_next =
     \<lparr>currentPokemon = Some pikachu, nextPokemon = None, isInitialLoading = False,
      error = None, isAnimating = False, position = (0, 0), likedPokemon = [],
      seenPokemonIds = [25]\<rparr>"

section \<open>Properties\<close>

lemmas screen_simps =
  prefetchNext.simps init.simps handleRetry.simps moveToNext.simps swipeRight_end.simps
  swipeRight.simps swipeLeft_end.simps swipeLeft.simps swipeRight_start.simps
  swipeLeft_start.simps handleLike.simps handleDislike.simps onPanResponderRelease_def
  onPanResponderMove_def swipe_begin_def fetchPokemon_def fetch_loop.simps maxAttempts_def
  addSeenPokemon_def addLikedPokemon_def isLiked_def firstRender_def mount_def screen_of_def

lemmas concrete_simps =
  pikachu_def bulbasaur_def net_always_pikachu_def net_pikachu_then_bulbasaur_def
  net_pikachu_twice_then_bulbasaur_def net_fail_then_pikachu_def net_always_fail_def
  net_pikachu_twice_then_fail_def fresh_start_def drag_right_def fresh_start_dragged_def
  like_in_flight_def tap_def shown_without_next_def panHandlers_move_def
  panHandlers_release_def SWIPE_THRESHOLD_def

subsection \<open>The retry loop\<close>

text \<open>
  The loop after \<open>n\<close> draws of seen items: a draw that succeeds ends it when the item is
  unseen or the counter has reached the ceiling; a draw that throws ends it at once.
\<close>

lemma draws_shift:
  assumes "\<forall>i<Suc n. \<exists>p. net (k + i) = Inr p \<and> pokemon_id p \<in> set seen"
  shows "\<forall>i<n. \<exists>p. net (Suc k + i) = Inr p \<and> pokemon_id p \<in> set seen"
proof (intro allI impI)
  fix i assume "i < n"
  then have "Suc i < Suc n" by simp
  with assms have "\<exists>p. net (k + Suc i) = Inr p \<and> pokemon_id p \<in> set seen"
    by blast
  then show "\<exists>p. net (Suc k + i) = Inr p \<and> pokemon_id p \<in> set seen" by simp
qed

lemma fetch_loop_draws:
  assumes "\<forall>i<n. \<exists>p. net (k + i) = Inr p \<and> pokemon_id p \<in> set seen"
    and "net (k + n) = Inr q"
    and "attempts + n < maxAttempts"
    and "pokemon_id q \<notin> set seen \<or> attempts + n + 1 = maxAttempts"
  shows "fetch_loop net seen attempts k = (Some q, k + n + 1)"
  using assms
proof (induction n arbitrary: attempts k)
  case 0
  then show ?case
    by (subst fetch_loop.simps) auto
next
  case (Suc n)
  from Suc.prems(1) obtain p where p: "net k = Inr p" "pokemon_id p \<in> set seen"
    by force
  have last: "net (Suc k + n) = Inr q"
    using Suc.prems(2) by simp
  have rest: "fetch_loop net seen (Suc attempts) (Suc k) = (Some q, Suc k + n + 1)"
    using Suc.IH [OF draws_shift [OF Suc.prems(1)] last] Suc.prems(3,4) by simp
  have "Suc attempts < maxAttempts"
    using Suc.prems(3) by simp
  with p rest show ?case
    by (subst fetch_loop.simps) simp
qed


text \<open>Whatever the network does, a call of the helper makes between one and ten calls.\<close>

lemma fetch_loop_calls:
  "attempts < maxAttempts \<Longrightarrow>
     k < snd (fetch_loop net seen attempts k)
     \<and> snd (fetch_loop net seen attempts k) \<le> k + (maxAttempts - attempts)"
proof (induction net seen attempts k rule: fetch_loop.induct)
  case (1 net seen attempts k)
  show ?case
  proof (cases "net k")
    case (Inl e)
    with "1.prems" show ?thesis
      by (subst (1 2) fetch_loop.simps) simp
  next
    case (Inr pokemon)
    show ?thesis
    proof (cases "pokemon_id pokemon \<in> set seen \<and> Suc attempts < maxAttempts")
      case True
      with "1.IH" [OF Inr] have
        "Suc k < snd (fetch_loop net seen (Suc attempts) (Suc k))
         \<and> snd (fetch_loop net seen (Suc attempts) (Suc k))
             \<le> Suc k + (maxAttempts - Suc attempts)"
        by simp
      with Inr True "1.prems" show ?thesis
        by (subst (1 2) fetch_loop.simps) auto
    next
      case False
      with Inr "1.prems" show ?thesis
        by (subst (1 2) fetch_loop.simps) auto
    qed
  qed
qed

lemma fetchPokemon_calls:
  "k < snd (fetchPokemon r net k) \<and> snd (fetchPokemon r net k) \<le> k + 10"
  using fetch_loop_calls [of 0 k net "seenPokemonIds r"]
  by (simp add: fetchPokemon_def maxAttempts_def)

text \<open>
  Relative to the seen ids that the closure of the helper reads, those of its render:
  if the first \<open>n\<close> draws (\<open>n < 10\<close>) are among them and the next draw \<open>q\<close> is not, or is
  the tenth draw, the helper returns \<open>q\<close> after exactly \<open>n + 1\<close> network calls.
\<close>

lemma fetchPokemon_on_snapshot:
  assumes "\<forall>i<n. \<exists>p. net (k + i) = Inr p \<and> pokemon_id p \<in> set (seenPokemonIds r)"
    and "net (k + n) = Inr q"
    and "n < 10"
    and "pokemon_id q \<notin> set (seenPokemonIds r) \<or> n = 9"
  shows "fetchPokemon r net k = (Some q, k + n + 1)"
  unfolding fetchPokemon_def
  by (rule fetch_loop_draws) (use assms in \<open>auto simp: maxAttempts_def\<close>)

text \<open>
  C3, on the code. The seen ids that a call of the fetch helper reads are those of the
  render that made its closure, not the seen-id set as it is when the call runs. Every
  prefetch is started right after \<^verbatim>\<open>addSeenPokemon\<close> by the same closure (lines 225 and 226,
  257 and 260, 266 and 267), so the id just marked seen is not among the ids it reads.
  On a fresh start with a network that returns item 25, item 25 and then item 1: the
  first fetch shows item 25 and marks 25 seen; the prefetch, the call of the helper that
  starts at network call 1, draws item 25, whose id is in the seen-id set, and returns it
  after that one draw, where a second draw would have found the unseen item 1.
\<close>

theorem C3_prefetch_returns_seen_item:
  "mount [] [] net_pikachu_twice_then_bulbasaur 0 =
     (\<lparr>currentPokemon = Some pikachu, nextPokemon = Some pikachu, isInitialLoading = False,
       error = None, isAnimating = False, position = (0, 0), likedPokemon = [],
       seenPokemonIds = [25]\<rparr>, 2)
   \<and> fetchPokemon (firstRender [] []) net_pikachu_twice_then_bulbasaur 1 = (Some pikachu, 2)
   \<and> pokemon_id pikachu = 25
   \<and> net_pikachu_twice_then_bulbasaur 2 = Inr bulbasaur
   \<and> pokemon_id bulbasaur = 1"
  by (simp add: screen_simps concrete_simps)

subsection \<open>What fetching and advancing leave alone\<close>

lemma prefetchNext_fields [simp]:
  "error (fst (prefetchNext r net (s, k))) = error s"
  "likedPokemon (fst (prefetchNext r net (s, k))) = likedPokemon s"
  "seenPokemonIds (fst (prefetchNext r net (s, k))) = seenPokemonIds s"
  "currentPokemon (fst (prefetchNext r net (s, k))) = currentPokemon s"
  by (simp_all add: prefetchNext.simps split: prod.splits option.splits)

lemma prefetchNext_shape:
  "\<exists>nx k'. prefetchNext r net (s, k) = (s\<lparr>nextPokemon := nx\<rparr>, k')"
proof (cases "fetchPokemon r net k")
  case (Pair res k')
  show ?thesis
  proof (cases res)
    case None
    with Pair have "prefetchNext r net (s, k) = (s\<lparr>nextPokemon := nextPokemon s\<rparr>, k')"
      by (simp add: prefetchNext.simps)
    then show ?thesis by blast
  next
    case (Some p)
    with Pair have "prefetchNext r net (s, k) = (s\<lparr>nextPokemon := Some p\<rparr>, k')"
      by (simp add: prefetchNext.simps)
    then show ?thesis by blast
  qed
qed

lemma addSeenPokemon_fields [simp]:
  "error (addSeenPokemon i s) = error s"
  "likedPokemon (addSeenPokemon i s) = likedPokemon s"
  "currentPokemon (addSeenPokemon i s) = currentPokemon s"
  "set (seenPokemonIds (addSeenPokemon i s)) = insert i (set (seenPokemonIds s))"
  by (auto simp: addSeenPokemon_def)

lemma addLikedPokemon_fields [simp]:
  "seenPokemonIds (addLikedPokemon l s) = seenPokemonIds s"
  "currentPokemon (addLikedPokemon l s) = currentPokemon s"
  by (simp_all add: addLikedPokemon_def)

lemma moveToNext_fields [simp]:
  "error (fst (moveToNext r net (s, k))) = error s"
  "likedPokemon (fst (moveToNext r net (s, k))) = likedPokemon s"
  by (simp_all add: moveToNext.simps split: prod.splits option.splits)

text \<open>
  An advance either changes neither the current item nor the seen ids, or it shows an
  item and adds exactly that item's id to the seen ids.
\<close>

lemma moveToNext_seen:
  "(currentPokemon (fst (moveToNext r net (s, k))) = currentPokemon s
      \<and> seenPokemonIds (fst (moveToNext r net (s, k))) = seenPokemonIds s)
   \<or> (\<exists>c. currentPokemon (fst (moveToNext r net (s, k))) = Some c
        \<and> set (seenPokemonIds (fst (moveToNext r net (s, k))))
            = insert (pokemon_id c) (set (seenPokemonIds s)))"
  by (simp add: moveToNext.simps split: prod.splits option.splits)

lemma position_kept [simp]:
  "position (fst (prefetchNext r net (s, k))) = position s"
  "position (addSeenPokemon i s) = position s"
  "position (addLikedPokemon l s) = position s"
  by (simp_all add: prefetchNext.simps addSeenPokemon_def addLikedPokemon_def
      split: prod.splits option.splits)

lemma moveToNext_position [simp]:
  "position (fst (moveToNext r net (s, k))) = position s"
  by (simp add: moveToNext.simps split: prod.splits option.splits)

lemma flyOut_callback_position [simp]:
  "position (fst (flyOut_callback f net (s, k))) = (0, 0)"
  by (cases f) (simp_all add: swipeRight_end.simps swipeLeft_end.simps)

text \<open>
  A swipe action whose fly-out runs to its end undisturbed is the whole action.
\<close>

lemma start_then_finish:
  "flyOut_finished net (swipeRight_start r net (None, s, k)) = (None, swipeRight r net (s, k))"
  "flyOut_finished net (swipeLeft_start r net (None, s, k)) = (None, swipeLeft r net (s, k))"
  by (simp_all add: swipeRight_start.simps swipeLeft_start.simps swipeRight.simps
      swipeLeft.simps)

subsection \<open>The liked collection\<close>

lemma addLikedPokemon_distinct:
  "distinct (map liked_id (likedPokemon s))
   \<Longrightarrow> distinct (map liked_id (likedPokemon (addLikedPokemon l s)))"
  by (simp add: addLikedPokemon_def)

lemma swipeRight_liked:
  "likedPokemon (fst (swipeRight r net (s, k))) =
     (if isAnimating r then likedPokemon s
      else case currentPokemon r of
             None \<Rightarrow> likedPokemon s
           | Some p \<Rightarrow> if isLiked r (pokemon_id p) then likedPokemon s
                       else likedPokemon (addLikedPokemon (toLikedPokemon p) s))"
  by (simp add: swipeRight.simps swipeRight_end.simps swipe_begin_def addLikedPokemon_def
      split: option.splits)

lemma swipeLeft_liked [simp]: "likedPokemon (fst (swipeLeft r net (s, k))) = likedPokemon s"
  by (simp add: swipeLeft.simps swipeLeft_end.simps swipe_begin_def)

lemma act_distinct:
  "distinct (map liked_id (likedPokemon (fst sk)))
   \<Longrightarrow> distinct (map liked_id (likedPokemon (fst (act net a sk))))"
  by (cases sk; cases a)
    (simp_all add: swipeRight_liked addLikedPokemon_distinct split: option.splits)

lemma run_distinct:
  "distinct (map liked_id (likedPokemon (fst sk)))
   \<Longrightarrow> distinct (map liked_id (likedPokemon (fst (run net as sk))))"
  by (induction as arbitrary: sk) (simp_all add: act_distinct)

text \<open>
  What a swipe to the right does when its guard lets it through (its render \<open>r\<close> shows an
  item \<open>p\<close> and is not animating, and the ids it reads as liked are liked in the live
  collection): on the modelled store it appends the one entry with the id, the name, the
  artwork address and the type names of \<open>p\<close> when the id of \<open>p\<close> is not in the liked
  collection, and nothing when it is. This is the path of the Like button.
\<close>

lemma like_appends_once:
  assumes "currentPokemon r = Some p" and "\<not> isAnimating r"
    and "set (map liked_id (likedPokemon r)) \<subseteq> set (map liked_id (likedPokemon s))"
  shows "likedPokemon (fst (swipeRight r net (s, k))) =
           (if pokemon_id p \<in> set (map liked_id (likedPokemon s)) then likedPokemon s
            else likedPokemon s @
              [\<lparr>liked_id = pokemon_id p, liked_name = pokemon_name p,
                liked_imageUrl = getOfficialArtworkUrl (pokemon_id p),
                liked_types = map type_name (pokemon_types p)\<rparr>])"
  using assms
  by (auto simp add: swipeRight_liked isLiked_def addLikedPokemon_def toLikedPokemon_def)

lemma toLikedPokemon_pikachu: "toLikedPokemon pikachu = pikachu_liked"
  by (simp add: toLikedPokemon_def pikachu_def pikachu_liked_def getOfficialArtworkUrl_def
      show_int_def show_nat.simps)

subsection \<open>The seen ids\<close>

lemma moveToNext_seen_mono:
  "set (seenPokemonIds s) \<subseteq> set (seenPokemonIds (fst (moveToNext r net (s, k))))"
  using moveToNext_seen [of r net s k] by auto

lemma swipeRight_seen_mono:
  "set (seenPokemonIds s) \<subseteq> set (seenPokemonIds (fst (swipeRight r net (s, k))))"
proof (cases "isAnimating r \<or> currentPokemon r = None")
  case True
  then show ?thesis by (simp add: swipeRight.simps)
next
  case False
  then obtain s' where s': "swipeRight r net (s, k) = moveToNext r net (s', k)"
    "seenPokemonIds s' = seenPokemonIds s"
    by (auto simp add: swipeRight.simps swipeRight_end.simps swipe_begin_def)
  show ?thesis
    using moveToNext_seen_mono [of s' r net k] s' by simp
qed

lemma swipeLeft_seen_mono:
  "set (seenPokemonIds s) \<subseteq> set (seenPokemonIds (fst (swipeLeft r net (s, k))))"
proof (cases "isAnimating r \<or> currentPokemon r = None")
  case True
  then show ?thesis by (simp add: swipeLeft.simps)
next
  case False
  then obtain s' where s': "swipeLeft r net (s, k) = moveToNext r net (s', k)"
    "seenPokemonIds s' = seenPokemonIds s"
    by (auto simp add: swipeLeft.simps swipeLeft_end.simps swipe_begin_def)
  show ?thesis
    using moveToNext_seen_mono [of s' r net k] s' by simp
qed

lemma act_seen_mono:
  "set (seenPokemonIds (fst sk)) \<subseteq> set (seenPokemonIds (fst (act net a sk)))"
  by (cases sk; cases a)
    (simp_all add: swipeRight_seen_mono swipeLeft_seen_mono moveToNext_seen_mono)

lemma run_seen_mono:
  "set (seenPokemonIds (fst sk)) \<subseteq> set (seenPokemonIds (fst (run net as sk)))"
proof (induction as arbitrary: sk)
  case Nil
  show ?case by simp
next
  case (Cons a as)
  have "set (seenPokemonIds (fst sk)) \<subseteq> set (seenPokemonIds (fst (act net a sk)))"
    by (rule act_seen_mono)
  also have "\<dots> \<subseteq> set (seenPokemonIds (fst (run net as (act net a sk))))"
    by (rule Cons.IH)
  finally show ?case by simp
qed

text \<open>
  C8. Over every sequence of swipes to the right, swipes to the left and advances, run
  by the closures of any renders (so with or without a prefetched item) and against any
  network, every id seen before is seen after, and the number of seen ids does not go down.
\<close>

theorem C8_seen_only_grows:
  "set (seenPokemonIds s) \<subseteq> set (seenPokemonIds (fst (run net as (s, k))))
   \<and> card (set (seenPokemonIds s)) \<le> card (set (seenPokemonIds (fst (run net as (s, k)))))"
  using run_seen_mono [of "(s, k)" net as] by (simp add: card_mono)

subsection \<open>A failed fetch\<close>

text \<open>
  C10. An advance whose render has no prefetched item and whose replacement fetch
  returns the failure signal leaves the whole screen state as it was: the current item,
  the seen ids, the liked collection and the error cell among the rest.
\<close>

theorem C10_failed_replacement_fetch_changes_nothing:
  assumes "nextPokemon r = None" and "fst (fetchPokemon r net k) = None"
  shows "fst (moveToNext r net (s, k)) = s"
  using assms by (cases "fetchPokemon r net k") (simp add: moveToNext.simps)

theorem C10_failed_replacement_fetch_changes_nothing_witness:
  "nextPokemon shown_without_next = None
   \<and> fst (fetchPokemon shown_without_next net_always_fail 0) = None
   \<and> fst (moveToNext shown_without_next net_always_fail (shown_without_next, 0))
       = shown_without_next"
proof -
  have a: "nextPokemon shown_without_next = None"
    by (simp add: shown_without_next_def)
  have b: "fst (fetchPokemon shown_without_next net_always_fail 0) = None"
    by (simp add: fetchPokemon_def fetch_loop.simps net_always_fail_def)
  show ?thesis
    using a b C10_failed_replacement_fetch_changes_nothing [OF a b] by simp
qed




subsection \<open>The fresh start\<close>

lemma fresh_start_value:
  "fresh_start =
     (\<lparr>currentPokemon = Some pikachu, nextPokemon = Some bulbasaur, isInitialLoading = False,
       error = None, isAnimating = False, position = (0, 0), likedPokemon = [],
       seenPokemonIds = [25]\<rparr>, 2)"
  by (simp add: screen_simps concrete_simps)

lemma fresh_start_dragged_value:
  "fresh_start_dragged =
     (None,
      \<lparr>currentPokemon = Some pikachu, nextPokemon = Some bulbasaur, isInitialLoading = False,
       error = None, isAnimating = False, position = (200, 0), likedPokemon = [],
       seenPokemonIds = [25]\<rparr>, 2)"
  by (simp add: fresh_start_dragged_def fresh_start_value panHandlers_move_def
      onPanResponderMove_def drag_right_def)

lemma like_in_flight_value:
  "like_in_flight =
     (Some (LikeFlyOut (fst fresh_start)),
      \<lparr>currentPokemon = Some pikachu, nextPokemon = Some bulbasaur, isInitialLoading = False,
       error = None, isAnimating = True, position = (0, 0), likedPokemon = [],
       seenPokemonIds = [25]\<rparr>, 2)"
  by (simp add: like_in_flight_def fresh_start_value handleLike.simps swipeRight_start.simps
      swipe_begin_def)

lemma mount_fresh:
  assumes "net 0 = Inr p"
  shows "\<exists>nx k'. mount [] [] net 0 =
     (\<lparr>currentPokemon = Some p, nextPokemon = nx, isInitialLoading = False, error = None,
       isAnimating = False, position = (0, 0), likedPokemon = [],
       seenPokemonIds = [pokemon_id p]\<rparr>, k')"
proof -
  define r where "r = firstRender [] []"
  define shown where
    "shown = addSeenPokemon (pokemon_id p) (r\<lparr>isInitialLoading := True, currentPokemon := Some p\<rparr>)"
  obtain k1 where f: "fetchPokemon r net 0 = (Some p, k1)"
    using assms by (simp add: r_def fetchPokemon_def firstRender_def fetch_loop.simps)
  obtain nx k' where pf: "prefetchNext r net (shown, k1) = (shown\<lparr>nextPokemon := nx\<rparr>, k')"
    using prefetchNext_shape by blast
  have "mount [] [] net 0 = (shown\<lparr>nextPokemon := nx, isInitialLoading := False\<rparr>, k')"
    unfolding mount_def r_def [symmetric]
    by (simp add: init.simps f shown_def [symmetric] pf)
  also have "shown\<lparr>nextPokemon := nx, isInitialLoading := False\<rparr> =
      \<lparr>currentPokemon = Some p, nextPokemon = nx, isInitialLoading = False, error = None,
       isAnimating = False, position = (0, 0), likedPokemon = [],
       seenPokemonIds = [pokemon_id p]\<rparr>"
    by (simp add: shown_def r_def firstRender_def addSeenPokemon_def)
  finally show ?thesis by blast
qed

text \<open>
  The Like button on a fresh start whose first fetch returned an item \<open>p\<close> with id 25, the
  fly-out running to its end: the liked collection becomes the one entry made of \<open>p\<close>, and
  the seen ids become 25 together with the id of the item on show afterwards.
\<close>

lemma fresh_start_like_button:
  assumes "net 0 = Inr p" and "pokemon_id p = 25"
  shows "likedPokemon (screen_of (flyOut_finished net (handleLike net (None, mount [] [] net 0))))
           = [\<lparr>liked_id = 25, liked_name = pokemon_name p,
               liked_imageUrl = getOfficialArtworkUrl 25,
               liked_types = map type_name (pokemon_types p)\<rparr>]
       \<and> (\<exists>c. currentPokemon (screen_of (flyOut_finished net (handleLike net (None, mount [] [] net 0))))
                = Some c
              \<and> set (seenPokemonIds
                    (screen_of (flyOut_finished net (handleLike net (None, mount [] [] net 0)))))
                  = {25, pokemon_id c})"
proof -
  from assms(1) mount_fresh [of net p] obtain nx k' where
    m: "mount [] [] net 0 =
     (\<lparr>currentPokemon = Some p, nextPokemon = nx, isInitialLoading = False, error = None,
       isAnimating = False, position = (0, 0), likedPokemon = [],
       seenPokemonIds = [pokemon_id p]\<rparr>, k')"
    by blast
  define s where "s = fst (mount [] [] net 0)"
  have s: "mount [] [] net 0 = (s, k')" "currentPokemon s = Some p" "likedPokemon s = []"
    "seenPokemonIds s = [25]" "\<not> isAnimating s"
    using m assms(2) by (simp_all add: s_def)
  have whole: "flyOut_finished net (handleLike net (None, s, k')) = (None, swipeRight s net (s, k'))"
    by (simp add: handleLike.simps start_then_finish)
  have liked: "likedPokemon (fst (swipeRight s net (s, k'))) =
      [\<lparr>liked_id = 25, liked_name = pokemon_name p, liked_imageUrl = getOfficialArtworkUrl 25,
        liked_types = map type_name (pokemon_types p)\<rparr>]"
    using like_appends_once [of s p s net k'] s assms(2) by simp
  obtain s' where s': "swipeRight s net (s, k') = moveToNext s net (s', k')"
    "seenPokemonIds s' = seenPokemonIds s" "currentPokemon s' = currentPokemon s"
    using s by (auto simp add: swipeRight.simps swipeRight_end.simps swipe_begin_def)
  have "\<exists>c. currentPokemon (fst (swipeRight s net (s, k'))) = Some c
          \<and> set (seenPokemonIds (fst (swipeRight s net (s, k')))) = {25, pokemon_id c}"
    using moveToNext_seen [of s net s' k'] s s' assms(2) by auto
  with liked show ?thesis
    by (simp add: s(1) whole screen_of_def)
qed

subsection \<open>The pan responder\<close>

text \<open>
  What the guards of the swipe actions and of the gesture start do when they read the
  live state: while the flag is set a swipe action changes nothing, and the gesture start
  is refused.
\<close>

lemma swipe_while_animating:
  "isAnimating r \<Longrightarrow> swipeRight r net (s, k) = (s, k) \<and> swipeLeft r net (s, k) = (s, k)
     \<and> swipeRight_start r net l = l \<and> swipeLeft_start r net l = l"
  by (cases l) (simp add: swipeRight.simps swipeLeft.simps swipeRight_start.simps
      swipeLeft_start.simps)

lemma live_render_refuses_start_in_flight:
  "\<not> onStartShouldSetPanResponder (swipe_begin s)"
  by (simp add: onStartShouldSetPanResponder_def swipe_begin_def)

text \<open>
  A release handler that belonged to the latest render would run the like action right
  of the threshold and the dislike action left of it, as the buttons do.
\<close>

lemma release_of_live_render:
  "dx g > SWIPE_THRESHOLD width
     \<Longrightarrow> onPanResponderRelease s width net g (fly, s, k) = handleLike net (fly, s, k)"
  "\<not> dx g > SWIPE_THRESHOLD width \<Longrightarrow> dx g < - SWIPE_THRESHOLD width
     \<Longrightarrow> onPanResponderRelease s width net g (fly, s, k) = handleDislike net (fly, s, k)"
  by (simp_all add: onPanResponderRelease_def handleLike.simps handleDislike.simps)

text \<open>
  C1, on the code. The release handler that the card holds is the one of the first
  render. A release beyond the threshold on either side calls that render's
  \<^verbatim>\<open>swipeRight\<close> or \<^verbatim>\<open>swipeLeft\<close>, whose \<^verbatim>\<open>currentPokemon\<close> is \<^verbatim>\<open>null\<close>, so the action returns
  at its guard: the release changes nothing, the flag is not set, no fly-out starts,
  nothing is liked, the item stays and the offset stays where the drag left it.
\<close>

theorem C1_release_beyond_threshold_changes_nothing:
  assumes "dx g > SWIPE_THRESHOLD width \<or> dx g < - SWIPE_THRESHOLD width"
  shows "panHandlers_release liked0 seen0 width net g (fly, s, k) = (fly, s, k)"
  using assms
  by (auto simp add: panHandlers_release_def firstRender_def onPanResponderRelease_def
      swipeRight_start.simps swipeLeft_start.simps)

text \<open>Item 25 on show, window 400 wide, the card dragged by 200 and released.\<close>

theorem C1_release_beyond_threshold_changes_nothing_witness:
  "SWIPE_THRESHOLD 400 = 100 \<and> dx drag_right = 200
   \<and> panHandlers_release [] [] 400 net_pikachu_then_bulbasaur drag_right fresh_start_dragged
       = fresh_start_dragged
   \<and> fresh_start_dragged =
       (None,
        \<lparr>currentPokemon = Some pikachu, nextPokemon = Some bulbasaur, isInitialLoading = False,
         error = None, isAnimating = False, position = (200, 0), likedPokemon = [],
         seenPokemonIds = [25]\<rparr>, 2)"
proof -
  have far: "dx drag_right > SWIPE_THRESHOLD 400 \<or> dx drag_right < - SWIPE_THRESHOLD 400"
    by (simp add: drag_right_def SWIPE_THRESHOLD_def)
  show ?thesis
    using C1_release_beyond_threshold_changes_nothing
      [OF far, of "[]" "[]" net_pikachu_then_bulbasaur None
         "fst (snd fresh_start_dragged)" "snd (snd fresh_start_dragged)"]
    by (simp add: fresh_start_dragged_value drag_right_def SWIPE_THRESHOLD_def)
qed

text \<open>
  C2, on the code. A drag release right of the threshold appends nothing to the liked
  collection, whatever the item on show and whether or not its id is already liked: the
  release handler of the card calls the first render's \<^verbatim>\<open>swipeRight\<close>, which returns at its
  guard before the collection is touched.
\<close>

theorem C2_release_right_appends_nothing:
  assumes "dx g > SWIPE_THRESHOLD width"
  shows "likedPokemon (screen_of (panHandlers_release liked0 seen0 width net g (fly, s, k)))
           = likedPokemon s"
  using assms
  by (simp add: panHandlers_release_def firstRender_def onPanResponderRelease_def
      swipeRight_start.simps screen_of_def)

text \<open>
  Item 25 on show and not liked, the card dragged by 200 on a window 400 wide and
  released: the liked collection stays empty.
\<close>

theorem C2_release_right_appends_nothing_witness:
  "currentPokemon (screen_of fresh_start_dragged) = Some pikachu
   \<and> pokemon_id pikachu \<notin> set (map liked_id (likedPokemon (screen_of fresh_start_dragged)))
   \<and> dx drag_right > SWIPE_THRESHOLD 400
   \<and> likedPokemon (screen_of (panHandlers_release [] [] 400 net_pikachu_then_bulbasaur
        drag_right fresh_start_dragged)) = []"
proof -
  have far: "dx drag_right > SWIPE_THRESHOLD 400"
    by (simp add: drag_right_def SWIPE_THRESHOLD_def)
  show ?thesis
    using far C2_release_right_appends_nothing
      [OF far, of "[]" "[]" net_pikachu_then_bulbasaur None
         "fst (snd fresh_start_dragged)" "snd (snd fresh_start_dragged)"]
    by (simp add: fresh_start_dragged_value screen_of_def)
qed

text \<open>
  C5, on the code. From a fresh start (nothing liked, nothing seen) whose first fetch
  returns an item \<open>p\<close> with id 25, on a window 400 wide (threshold 100): after the card is
  dragged by 200 and released, the liked collection is still empty; the seen ids are 25,
  the item \<open>p\<close> is still on show, no fly-out has started and the offset is where the drag
  left it.
\<close>

theorem C5_fresh_start_drag_likes_nothing:
  assumes "net 0 = Inr p" and "pokemon_id p = 25"
  shows "SWIPE_THRESHOLD 400 = 100
       \<and> (\<exists>nx k.
            panHandlers_release [] [] 400 net \<lparr>dx = 200, dy = 0\<rparr>
              (panHandlers_move net \<lparr>dx = 200, dy = 0\<rparr> (None, mount [] [] net 0))
            = (None,
               \<lparr>currentPokemon = Some p, nextPokemon = nx, isInitialLoading = False,
                error = None, isAnimating = False, position = (200, 0), likedPokemon = [],
                seenPokemonIds = [25]\<rparr>, k))"
proof -
  from assms(1) mount_fresh [of net p] obtain nx k' where
    m: "mount [] [] net 0 =
     (\<lparr>currentPokemon = Some p, nextPokemon = nx, isInitialLoading = False, error = None,
       isAnimating = False, position = (0, 0), likedPokemon = [],
       seenPokemonIds = [pokemon_id p]\<rparr>, k')"
    by blast
  have "panHandlers_release [] [] 400 net \<lparr>dx = 200, dy = 0\<rparr>
              (panHandlers_move net \<lparr>dx = 200, dy = 0\<rparr> (None, mount [] [] net 0))
            = (None,
               \<lparr>currentPokemon = Some p, nextPokemon = nx, isInitialLoading = False,
                error = None, isAnimating = False, position = (200, 0), likedPokemon = [],
                seenPokemonIds = [25]\<rparr>, k')"
    using assms(2)
    by (simp add: m panHandlers_move_def onPanResponderMove_def panHandlers_release_def
        onPanResponderRelease_def SWIPE_THRESHOLD_def swipeRight_start.simps firstRender_def)
  then show ?thesis
    by (auto simp add: SWIPE_THRESHOLD_def)
qed

theorem C5_fresh_start_drag_likes_nothing_witness:
  "net_pikachu_then_bulbasaur 0 = Inr pikachu \<and> pokemon_id pikachu = 25
   \<and> panHandlers_release [] [] 400 net_pikachu_then_bulbasaur \<lparr>dx = 200, dy = 0\<rparr>
       (panHandlers_move net_pikachu_then_bulbasaur \<lparr>dx = 200, dy = 0\<rparr>
          (None, mount [] [] net_pikachu_then_bulbasaur 0))
     = (None,
        \<lparr>currentPokemon = Some pikachu, nextPokemon = Some bulbasaur,
         isInitialLoading = False, error = None, isAnimating = False, position = (200, 0),
         likedPokemon = [], seenPokemonIds = [25]\<rparr>, 2)"
proof -
  have a: "net_pikachu_then_bulbasaur 0 = Inr pikachu"
    by (simp add: net_pikachu_then_bulbasaur_def)
  have b: "pokemon_id pikachu = 25" by (simp add: pikachu_def)
  have m: "mount [] [] net_pikachu_then_bulbasaur 0 = fresh_start"
    by (simp add: fresh_start_def)
  have v: "panHandlers_release [] [] 400 net_pikachu_then_bulbasaur \<lparr>dx = 200, dy = 0\<rparr>
       (panHandlers_move net_pikachu_then_bulbasaur \<lparr>dx = 200, dy = 0\<rparr>
          (None, mount [] [] net_pikachu_then_bulbasaur 0))
     = (None,
        \<lparr>currentPokemon = Some pikachu, nextPokemon = Some bulbasaur,
         isInitialLoading = False, error = None, isAnimating = False, position = (200, 0),
         likedPokemon = [], seenPokemonIds = [25]\<rparr>, 2)"
    by (simp add: m fresh_start_value panHandlers_move_def onPanResponderMove_def
        panHandlers_release_def onPanResponderRelease_def SWIPE_THRESHOLD_def
        swipeRight_start.simps firstRender_def)
  show ?thesis
    using a b v C5_fresh_start_drag_likes_nothing [of net_pikachu_then_bulbasaur pikachu]
    by simp
qed



text \<open>
  A move event that arrives while a fly-out is in flight ends the fly-out: its callback
  runs, and the offset ends as \<open>(0, dy * 0.5)\<close>.
\<close>

lemma move_in_flight:
  "\<exists>s' k'. flyOut_callback f net (s\<lparr>position := (dx g, snd (position s))\<rparr>, k) = (s', k')
       \<and> onPanResponderMove net g (Some f, s, k) = (None, s'\<lparr>position := (0, dy g * 0.5)\<rparr>, k')"
proof (cases "flyOut_callback f net (s\<lparr>position := (dx g, snd (position s))\<rparr>, k)")
  case (Pair s' k')
  have "position s' = (0, 0)"
    using flyOut_callback_position [of f net "s\<lparr>position := (dx g, snd (position s))\<rparr>" k] Pair
    by simp
  with Pair show ?thesis
    by (simp add: onPanResponderMove_def)
qed

text \<open>
  Item 25 on show, the Like button pressed, and a move by \<open>(10, 20)\<close> while the fly-out
  runs: the like is completed and the offset ends as \<open>(0, 10)\<close>.
\<close>

lemma move_in_flight_completes_like:
  "panHandlers_move net_pikachu_then_bulbasaur \<lparr>dx = 10, dy = 20\<rparr> like_in_flight
     = (None,
        \<lparr>currentPokemon = Some bulbasaur, nextPokemon = Some bulbasaur,
         isInitialLoading = False, error = None, isAnimating = False, position = (0, 10),
         likedPokemon = [pikachu_liked], seenPokemonIds = [25, 1]\<rparr>, 3)"
proof -
  have "panHandlers_move net_pikachu_then_bulbasaur \<lparr>dx = 10, dy = 20\<rparr> like_in_flight
     = (None,
        \<lparr>currentPokemon = Some bulbasaur, nextPokemon = Some bulbasaur,
         isInitialLoading = False, error = None, isAnimating = False, position = (0, 10),
         likedPokemon = [toLikedPokemon pikachu], seenPokemonIds = [25, 1]\<rparr>, 3)"
    by (simp add: like_in_flight_value fresh_start_value panHandlers_move_def
        onPanResponderMove_def swipeRight_end.simps moveToNext.simps prefetchNext.simps
        fetchPokemon_def fetch_loop.simps maxAttempts_def isLiked_def addLikedPokemon_def
        addSeenPokemon_def net_pikachu_then_bulbasaur_def bulbasaur_def)
  then show ?thesis
    by (simp add: toLikedPokemon_pikachu)
qed

text \<open>
  With no fly-out in flight, a release with \<open>\<bar>dx\<bar> \<le> T\<close> (the bounds \<open>T\<close> and \<open>- T\<close>
  included) only puts the offset to \<open>(0, 0)\<close>, whatever render the handler belongs to.
\<close>

lemma release_within_threshold_without_flight:
  assumes "\<bar>dx g\<bar> \<le> SWIPE_THRESHOLD width"
  shows "onPanResponderRelease r width net g (None, s, k) = (None, s\<lparr>position := (0, 0)\<rparr>, k)"
    and "panHandlers_release liked0 seen0 width net g (None, s, k)
           = (None, s\<lparr>position := (0, 0)\<rparr>, k)"
proof -
  from assms have "\<not> dx g > SWIPE_THRESHOLD width" and "\<not> dx g < - SWIPE_THRESHOLD width"
    by linarith+
  then show "onPanResponderRelease r width net g (None, s, k)
      = (None, s\<lparr>position := (0, 0)\<rparr>, k)" for r
    by (simp add: onPanResponderRelease_def)
  then show "panHandlers_release liked0 seen0 width net g (None, s, k)
           = (None, s\<lparr>position := (0, 0)\<rparr>, k)"
    by (simp add: panHandlers_release_def)
qed

text \<open>
  C7, on the code. Item 25 is on show, nothing is liked, item 1 is prefetched, and the
  Like button has been pressed: the flag is set and the fly-out runs. The card is touched
  (the start handler accepts the touch) and let go without a move, a release with
  \<open>dx = 0\<close>, within the threshold 100 of a window 400 wide. The release starts the spring,
  which stops the fly-out, whose callback runs: item 25 is appended to the liked
  collection, the flag is cleared and item 1 is shown and marked seen.
\<close>

theorem C7_release_in_flight_completes_like:
  "isAnimating (screen_of like_in_flight)
   \<and> likedPokemon (screen_of like_in_flight) = []
   \<and> panHandlers_start [] [] (screen_of like_in_flight)
   \<and> \<bar>dx tap\<bar> \<le> SWIPE_THRESHOLD 400
   \<and> panHandlers_release [] [] 400 net_pikachu_then_bulbasaur tap like_in_flight
     = (None,
        \<lparr>currentPokemon = Some bulbasaur, nextPokemon = Some bulbasaur,
         isInitialLoading = False, error = None, isAnimating = False, position = (0, 0),
         likedPokemon = [pikachu_liked], seenPokemonIds = [25, 1]\<rparr>, 3)"
proof -
  have "panHandlers_release [] [] 400 net_pikachu_then_bulbasaur tap like_in_flight
     = (None,
        \<lparr>currentPokemon = Some bulbasaur, nextPokemon = Some bulbasaur,
         isInitialLoading = False, error = None, isAnimating = False, position = (0, 0),
         likedPokemon = [toLikedPokemon pikachu], seenPokemonIds = [25, 1]\<rparr>, 3)"
    by (simp add: like_in_flight_value fresh_start_value panHandlers_release_def
        onPanResponderRelease_def tap_def SWIPE_THRESHOLD_def swipeRight_end.simps
        moveToNext.simps prefetchNext.simps fetchPokemon_def fetch_loop.simps maxAttempts_def
        isLiked_def addLikedPokemon_def addSeenPokemon_def net_pikachu_then_bulbasaur_def
        bulbasaur_def)
  then show ?thesis
    by (simp add: toLikedPokemon_pikachu like_in_flight_value screen_of_def tap_def
        SWIPE_THRESHOLD_def panHandlers_start_def onStartShouldSetPanResponder_def
        firstRender_def)
qed

text \<open>
  C9, on the code. The two handlers that decide whether a gesture starts are those of
  the first render, whose \<^verbatim>\<open>isAnimating\<close> is \<^verbatim>\<open>false\<close>. In the state a swipe action leaves
  while its animation runs, where the flag is set, the start handler accepts the gesture,
  and the move handler accepts it as soon as the pointer has moved more than 5 sideways.
\<close>

theorem C9_gesture_start_accepted_in_flight:
  "isAnimating (swipe_begin s)
   \<and> panHandlers_start liked0 seen0 (swipe_begin s)
   \<and> panHandlers_moveShouldSet liked0 seen0 g (swipe_begin s) = (\<bar>dx g\<bar> > 5)"
  by (simp add: swipe_begin_def panHandlers_start_def panHandlers_moveShouldSet_def
      onStartShouldSetPanResponder_def onMoveShouldSetPanResponder_def firstRender_def)

end
